theory Spec2Isabelle
  imports Main
begin

section \<open>Values shared by the daemon and the batch driver\<close>

text \<open>
  Python \<^verbatim>\<open>bytes\<close> are lists of 8-bit characters. A Python \<^verbatim>\<open>str\<close> is held
  as its UTF-8 encoding, wrapped in a constructor of its own so that text and bytes
  cannot be confused: \<^verbatim>\<open>s.encode("utf8")\<close> unwraps it and
  \<^verbatim>\<open>b.decode("utf8")\<close> wraps \<open>b\<close> when \<open>b\<close> is well-formed UTF-8 and raises
  otherwise. A \<^verbatim>\<open>str\<close> with a lone surrogate, the only text the strict encoder
  rejects, has no representation here; strict decoding never produces one.
\<close>

type_synonym bytes = "char list"

datatype str = Str (utf8: bytes)

definition encode_utf8 :: "str \<Rightarrow> bytes" where
  "encode_utf8 s = utf8 s"

text \<open>
  The exceptions the handlers of \<^verbatim>\<open>new_req\<close> tell apart, each with the text
  \<^verbatim>\<open>str(e)\<close> it carries: \<^verbatim>\<open>black.NothingChanged\<close>, the
  \<^verbatim>\<open>UnicodeDecodeError\<close> of a strict decode, and every other instance of
  \<^verbatim>\<open>Exception\<close>. Interrupts that are not instances of \<^verbatim>\<open>Exception\<close>
  (\<^verbatim>\<open>KeyboardInterrupt\<close>, \<^verbatim>\<open>SystemExit\<close>) end the process and are not
  outcomes of a request.
\<close>

datatype exc =
    NothingChanged
  | UnicodeDecodeError str
  | OtherException str

fun exc_str :: "exc \<Rightarrow> str" where
  "exc_str NothingChanged = Str []"
| "exc_str (UnicodeDecodeError m) = m"
| "exc_str (OtherException m) = m"

subsection \<open>Strict UTF-8 decoding\<close>

definition byte_in :: "nat \<Rightarrow> nat \<Rightarrow> char \<Rightarrow> bool" where
  "byte_in lo hi c = (lo \<le> (of_char c :: nat) \<and> (of_char c :: nat) \<le> hi)"

definition is_continuation :: "char \<Rightarrow> bool" where
  "is_continuation c = byte_in 0x80 0xBF c"

text \<open>
  The well-formed byte sequences of UTF-8 (RFC 3629): no overlong form, no surrogate
  (\<open>ED A0..BF\<close>), nothing above U+10FFFF. This is what Python's
  \<^verbatim>\<open>bytes.decode("utf8")\<close> accepts with its default strict error handling.
\<close>

fun valid_utf8 :: "bytes \<Rightarrow> bool" where
  "valid_utf8 [] = True"
| "valid_utf8 (b # bs) =
     (if byte_in 0x00 0x7F b then valid_utf8 bs
      else if byte_in 0xC2 0xDF b then
        (case bs of
           c1 # r \<Rightarrow> is_continuation c1 \<and> valid_utf8 r
         | _ \<Rightarrow> False)
      else if byte_in 0xE0 0xEF b then
        (case bs of
           c1 # c2 # r \<Rightarrow>
             (if of_char b = (0xE0 :: nat) then byte_in 0xA0 0xBF c1
              else if of_char b = (0xED :: nat) then byte_in 0x80 0x9F c1
              else is_continuation c1)
             \<and> is_continuation c2 \<and> valid_utf8 r
         | _ \<Rightarrow> False)
      else if byte_in 0xF0 0xF4 b then
        (case bs of
           c1 # c2 # c3 # r \<Rightarrow>
             (if of_char b = (0xF0 :: nat) then byte_in 0x90 0xBF c1
              else if of_char b = (0xF4 :: nat) then byte_in 0x80 0x8F c1
              else is_continuation c1)
             \<and> is_continuation c2 \<and> is_continuation c3 \<and> valid_utf8 r
         | _ \<Rightarrow> False)
      else False)"

text \<open>
  \<^verbatim>\<open>req_bytes.decode("utf8")\<close>. The text of the \<^verbatim>\<open>UnicodeDecodeError\<close> is the
  interpreter's; it is taken as a parameter \<open>msg\<close>.
\<close>

definition decode_utf8 :: "(bytes \<Rightarrow> str) \<Rightarrow> bytes \<Rightarrow> exc + str" where
  "decode_utf8 msg b = (if valid_utf8 b then Inr (Str b) else Inl (UnicodeDecodeError (msg b)))"

section \<open>The daemon: \<^verbatim>\<open>blackd.py\<close>\<close>

text \<open>
  Modelled from the spec: \<^verbatim>\<open>black.FileMode\<close> and \<^verbatim>\<open>FileMode.from_configuration\<close>,
  declared in \<^verbatim>\<open>black.py\<close>, which is not among the sources. The dialect flags are
  stub-file mode, extended-grammar mode and the string-normalization toggle; the
  constructor combines the three command-line flags into one value.
\<close>

record file_mode =
  py36 :: bool
  pyi :: bool
  skip_string_normalization :: bool

definition from_configuration :: "bool \<Rightarrow> bool \<Rightarrow> bool \<Rightarrow> file_mode" where
  "from_configuration p36 pi ssn =
     \<lparr>py36 = p36, pyi = pi, skip_string_normalization = ssn\<rparr>"

text \<open>
  What the daemon calls and does not define: \<^verbatim>\<open>black.format_file_contents\<close>
  (returns the formatted text or raises), the interpreter's text for a failed decode,
  \<^verbatim>\<open>asyncio.start_server\<close> (returns the listening server or raises) and
  \<^verbatim>\<open>black.__version__\<close>.
\<close>

datatype server = Server string int

record env =
  format_file_contents :: "str \<Rightarrow> int \<Rightarrow> bool \<Rightarrow> file_mode \<Rightarrow> exc + str"
  decode_error_str :: "bytes \<Rightarrow> str"
  start_server :: "string \<Rightarrow> int \<Rightarrow> exc + server"
  version :: str

text \<open>
  One accepted connection: the peer name the writer reports, what
  \<^verbatim>\<open>await reader.read()\<close> yields (the whole request body or an exception) and what
  \<^verbatim>\<open>await writer.drain()\<close> raises, if anything. The drain raises when the connection
  has been lost; after a read that failed it raises the exception the reader holds.
\<close>

record connection =
  peername :: string
  incoming :: "exc + bytes"
  draining :: "exc option"

text \<open>The lines given to \<^verbatim>\<open>black.out\<close>, by the f-string that builds them.\<close>

datatype out_line =
    Listening str string int
  | Got string nat
  | Format_done string nat
  | No_changes string
  | Error_while_formatting string str

datatype writer_call = Write bytes | Drain | Close

text \<open>
  The effects of handling one connection: the calls made on the connection's
  \<^verbatim>\<open>StreamWriter\<close> and the lines printed by \<^verbatim>\<open>black.out\<close>, oldest first.
  Writing to the stream buffer, printing and closing do not raise; awaiting the drain
  may.
\<close>

record io =
  writer_calls :: "writer_call list"
  out_lines :: "out_line list"

definition writer_do :: "writer_call \<Rightarrow> io \<Rightarrow> io" where
  "writer_do c s = s\<lparr>writer_calls := writer_calls s @ [c]\<rparr>"

definition out :: "out_line \<Rightarrow> io \<Rightarrow> io" where
  "out l s = s\<lparr>out_lines := out_lines s @ [l]\<rparr>"

text \<open>
  The body of the \<^verbatim>\<open>try\<close> statement of \<^verbatim>\<open>new_req\<close>: the exception that left it,
  if any, and the effects up to that point.
\<close>

definition try_body ::
  "env \<Rightarrow> int \<Rightarrow> bool \<Rightarrow> file_mode \<Rightarrow> connection \<Rightarrow> io \<Rightarrow> exc option \<times> io" where
  "try_body e line_length fast mode c s =
     (let peer = peername c in
      case incoming c of
        Inl ex \<Rightarrow> (Some ex, s)
      | Inr req_bytes \<Rightarrow>
          (let s1 = out (Got peer (length req_bytes)) s in
           case decode_utf8 (decode_error_str e) req_bytes of
             Inl ex \<Rightarrow> (Some ex, s1)
           | Inr req_str \<Rightarrow>
               (case format_file_contents e req_str line_length fast mode of
                  Inl ex \<Rightarrow> (Some ex, s1)
                | Inr dst \<Rightarrow>
                    (let formatted = encode_utf8 dst;
                         s2 = writer_do (Write (''OK\<newline>'' @ formatted)) s1
                     in (None, out (Format_done peer (length formatted)) s2)))))"

text \<open>The two \<^verbatim>\<open>except\<close> clauses, in the order of the source.\<close>

fun except_clauses :: "string \<Rightarrow> exc \<Rightarrow> io \<Rightarrow> io" where
  "except_clauses peer NothingChanged s =
     out (No_changes peer) (writer_do (Write ''OK NO CHANGE\<newline>'') s)"
| "except_clauses peer ex s =
     out (Error_while_formatting peer (exc_str ex))
       (writer_do (Write (''ERROR\<newline>'' @ encode_utf8 (exc_str ex))) s)"

text \<open>
  The \<^verbatim>\<open>finally\<close> clause: \<^verbatim>\<open>await writer.drain()\<close>, then \<^verbatim>\<open>writer.close()\<close>. When
  the drain raises, the exception leaves the clause and \<^verbatim>\<open>writer.close()\<close> is not
  reached.
\<close>

definition finally_clause :: "connection \<Rightarrow> io \<Rightarrow> exc option \<times> io" where
  "finally_clause c s =
     (let s1 = writer_do Drain s in
      case draining c of
        Some ex \<Rightarrow> (Some ex, s1)
      | None \<Rightarrow> (None, writer_do Close s1))"

text \<open>
  \<^verbatim>\<open>new_req\<close>: the exception that leaves it, if any, and its effects. An exception of
  the \<^verbatim>\<open>try\<close> body is handled by an \<^verbatim>\<open>except\<close> clause; the only exception that can
  leave is the one of the \<^verbatim>\<open>finally\<close> clause.
\<close>

definition new_req ::
  "env \<Rightarrow> int \<Rightarrow> bool \<Rightarrow> file_mode \<Rightarrow> connection \<Rightarrow> io \<Rightarrow> exc option \<times> io" where
  "new_req e line_length fast mode c s =
     (case try_body e line_length fast mode c s of
        (None, s1) \<Rightarrow> finally_clause c s1
      | (Some ex, s1) \<Rightarrow> finally_clause c (except_clauses (peername c) ex s1))"

text \<open>The bytes a connection receives: what was written to its stream, in order.\<close>

fun written :: "writer_call list \<Rightarrow> bytes list" where
  "written [] = []"
| "written (Write b # cs) = b # written cs"
| "written (_ # cs) = written cs"


subsection \<open>The entry point\<close>

text \<open>
  The names that \<^verbatim>\<open>blackd.py\<close> binds at module level: its imports and its two
  functions. Reading another attribute of the module raises \<^verbatim>\<open>AttributeError\<close> (the
  double-underscore names that the interpreter gives every module are left out).
\<close>

definition blackd_names :: "string list" where
  "blackd_names =
     [''asyncio'', ''partial'', ''Optional'', ''black'', ''click'', ''main'', ''new_req'']"

datatype attribute_error = AttributeError string

definition blackd_getattr :: "string \<Rightarrow> attribute_error + string" where
  "blackd_getattr name =
     (if name \<in> set blackd_names then Inr name else Inl (AttributeError name))"

text \<open>
  What happens while \<^verbatim>\<open>loop.run_forever()\<close> runs: a client connects, the process is
  interrupted from the keyboard, or a caller that shares the default event loop calls
  \<^verbatim>\<open>loop.stop()\<close>. The module itself never calls \<^verbatim>\<open>loop.stop()\<close>.
\<close>

datatype event = Connection connection | Keyboard_interrupt | Loop_stop

text \<open>
  The daemon as a whole: the lines printed so far, the writer calls of every connection
  handled so far (one list per connection, in the order of acceptance) and the servers
  closed by the \<^verbatim>\<open>finally\<close> clause of \<^verbatim>\<open>main\<close>.
\<close>

record daemon =
  printed :: "out_line list"
  handled :: "writer_call list list"
  closed_servers :: "server list"

text \<open>
  The event loop runs the request handler on a connection with that connection's own
  writer; the printed lines are the only thing handlers share. An exception that leaves
  the handler ends that handler's task only: the loop goes on.
\<close>

definition serve ::
  "(connection \<Rightarrow> io \<Rightarrow> exc option \<times> io) \<Rightarrow> connection \<Rightarrow> daemon \<Rightarrow> daemon" where
  "serve req_handler c d =
     (let (raised, s) = req_handler c \<lparr>writer_calls = [], out_lines = printed d\<rparr>
      in d\<lparr>printed := out_lines s, handled := handled d @ [writer_calls s]\<rparr>)"

text \<open>
  How \<^verbatim>\<open>loop.run_forever()\<close> can end: \<open>Stopped\<close> is its normal return, after
  \<^verbatim>\<open>loop.stop()\<close>; \<open>Interrupted\<close> is a \<^verbatim>\<open>KeyboardInterrupt\<close> raised out of it;
  \<open>Pending\<close> says that the events given are used up and the loop is still waiting.
\<close>

datatype loop_exit = Stopped | Interrupted | Pending

fun run_forever ::
  "(connection \<Rightarrow> io \<Rightarrow> exc option \<times> io) \<Rightarrow> event list \<Rightarrow> daemon \<Rightarrow>
     loop_exit \<times> daemon" where
  "run_forever req_handler [] d = (Pending, d)"
| "run_forever req_handler (Connection c # evs) d =
     run_forever req_handler evs (serve req_handler c d)"
| "run_forever req_handler (Keyboard_interrupt # evs) d = (Interrupted, d)"
| "run_forever req_handler (Loop_stop # evs) d = (Stopped, d)"

datatype main_exc =
    UnboundLocalError string
  | KeyboardInterrupt

text \<open>
  The \<^verbatim>\<open>finally\<close> clause of \<^verbatim>\<open>main\<close>. The local variable \<^verbatim>\<open>server\<close> is bound only
  once \<^verbatim>\<open>start_server\<close> has returned; reading it before raises
  \<^verbatim>\<open>UnboundLocalError\<close>, which replaces the exception in flight.
\<close>

definition main_finally :: "server option \<Rightarrow> daemon \<Rightarrow> main_exc option \<times> daemon" where
  "main_finally server_var d =
     (case server_var of
        None \<Rightarrow> (Some (UnboundLocalError ''server''), d)
      | Some sv \<Rightarrow> (None, d\<lparr>closed_servers := closed_servers d @ [sv]\<rparr>))"

text \<open>
  What is known of \<^verbatim>\<open>main\<close> after the events \<open>evs\<close>: it has returned, it has raised,
  or it is still inside \<^verbatim>\<open>loop.run_forever()\<close>. \<open>Startup_failed\<close> is the exception of
  \<^verbatim>\<open>start_server\<close> leaving \<^verbatim>\<open>main\<close> after a \<^verbatim>\<open>finally\<close> clause that did not raise.
\<close>

datatype main_outcome =
    Returned daemon
  | Raised main_exc daemon
  | Startup_failed exc daemon
  | Running daemon

definition main ::
  "env \<Rightarrow> int \<Rightarrow> bool \<Rightarrow> bool \<Rightarrow> bool \<Rightarrow> bool \<Rightarrow> string \<Rightarrow> int \<Rightarrow> event list \<Rightarrow> main_outcome" where
  "main e line_length fast pi p36 ssn bind_host bind_port evs =
     (let mode = from_configuration p36 pi ssn;
          req_handler = new_req e line_length fast mode;
          d0 = \<lparr>printed = [], handled = [], closed_servers = []\<rparr>
      in case start_server e bind_host bind_port of
           Inl ex \<Rightarrow>
             (case main_finally None d0 of
                (Some r, d) \<Rightarrow> Raised r d
              | (None, d) \<Rightarrow> Startup_failed ex d)
         | Inr sv \<Rightarrow>
             (let d1 = d0\<lparr>printed := printed d0 @ [Listening (version e) bind_host bind_port]\<rparr>
              in case run_forever req_handler evs d1 of
                   (Pending, d2) \<Rightarrow> Running d2
                 | (Stopped, d2) \<Rightarrow>
                     (case main_finally (Some sv) d2 of
                        (Some r, d) \<Rightarrow> Raised r d
                      | (None, d) \<Rightarrow> Returned d)
                 | (Interrupted, d2) \<Rightarrow>
                     (case main_finally (Some sv) d2 of
                        (Some r, d) \<Rightarrow> Raised r d
                      | (None, d) \<Rightarrow> Raised KeyboardInterrupt d)))"

section \<open>The cache, the run report and the batch driver\<close>

text \<open>
  These live in \<^verbatim>\<open>black.py\<close>, which is not among the sources; only their callers in
  \<^verbatim>\<open>tests/test_black.py\<close> are. Each definition below follows the spec, with the names
  and argument lists the tests call.
\<close>

type_synonym path = string

text \<open>
  Modelled from the spec: the state of a file that the cache looks at. The missing
  \<^verbatim>\<open>black.get_cache_info\<close> takes the (modification time, size) snapshot of a path;
  the time stamp is only ever compared for equality, and the size is the number of bytes
  of the content.
\<close>

record file_state =
  mtime :: int
  contents :: bytes

type_synonym filesystem = "path \<Rightarrow> file_state"

text \<open>
  Modelled from the spec: the snapshot \<^verbatim>\<open>black.get_cache_info\<close> takes of a path, the
  pair (modification time, size in bytes).
\<close>

type_synonym cache_info = "int \<times> nat"

definition get_cache_info :: "filesystem \<Rightarrow> path \<Rightarrow> cache_info" where
  "get_cache_info fs p = (mtime (fs p), length (contents (fs p)))"

text \<open>
  Modelled from the spec: the cache record store, missing with \<^verbatim>\<open>black.py\<close>. A cache
  maps a file identity to its snapshot. There is one stored table per configuration
  fingerprint (line length and dialect flags), addressed by a name derived from the
  fingerprint (\<^verbatim>\<open>black.get_cache_file\<close>); a stored table may be unreadable. The
  stores live under a cache root that may not exist yet and may not be writable.
\<close>

type_synonym cache = "path \<rightharpoonup> cache_info"

type_synonym cache_file = "int \<times> file_mode"

definition get_cache_file :: "int \<Rightarrow> file_mode \<Rightarrow> cache_file" where
  "get_cache_file line_length mode = (line_length, mode)"

text \<open>
  Modelled from the spec: the cache root on disk, read and written by the missing
  \<^verbatim>\<open>black.read_cache\<close> and \<^verbatim>\<open>black.write_cache\<close>: whether it exists, whether it can be
  written, and the stored table of each fingerprint-derived name.
\<close>

datatype stored = Unreadable | Pickled cache

record cache_dir =
  dir_exists :: bool
  dir_writable :: bool
  cache_files :: "cache_file \<rightharpoonup> stored"

text \<open>
  Modelled from the spec: \<^verbatim>\<open>black.read_cache\<close>, the operation \<open>read(fingerprint)\<close>. It
  returns an empty mapping if no cache exists or the stored data is unreadable.
\<close>

definition read_cache :: "cache_dir \<Rightarrow> int \<Rightarrow> file_mode \<Rightarrow> cache" where
  "read_cache d line_length mode =
     (if \<not> dir_exists d then Map.empty
      else case cache_files d (get_cache_file line_length mode) of
             None \<Rightarrow> Map.empty
           | Some Unreadable \<Rightarrow> Map.empty
           | Some (Pickled c) \<Rightarrow> c)"

text \<open>
  Modelled from the spec: \<^verbatim>\<open>black.write_cache\<close>, the operation
  \<open>write(fingerprint, successfully_formatted_files)\<close>. It merges new snapshots for the
  given files into the record it is handed (the one read for that fingerprint), creates
  the cache storage location if absent, and swallows a write failure.
\<close>

definition write_cache ::
  "filesystem \<Rightarrow> cache_dir \<Rightarrow> cache \<Rightarrow> path list \<Rightarrow> int \<Rightarrow> file_mode \<Rightarrow> cache_dir" where
  "write_cache fs d c sources line_length mode =
     (if \<not> dir_writable d then d
      else d\<lparr>dir_exists := True,
             cache_files := (if dir_exists d then cache_files d else Map.empty)
               (get_cache_file line_length mode \<mapsto>
                  Pickled (c ++ (\<lambda>p. if p \<in> set sources then Some (get_cache_info fs p)
                                      else None)))\<rparr>)"

text \<open>
  Modelled from the spec: \<^verbatim>\<open>black.filter_cached\<close>, the operation \<open>filter\<close>. It splits
  the candidates into (to process, already done): a file is already done only if it has
  a record in the cache and its current snapshot equals the recorded one.
\<close>

fun filter_cached :: "filesystem \<Rightarrow> cache \<Rightarrow> path list \<Rightarrow> path list \<times> path list" where
  "filter_cached fs c [] = ([], [])"
| "filter_cached fs c (src # sources) =
     (let (todo, dn) = filter_cached fs c sources
      in if c src = Some (get_cache_info fs src) then (todo, src # dn)
         else (src # todo, dn))"

text \<open>
  Modelled from the spec: \<^verbatim>\<open>black.Changed\<close> and \<^verbatim>\<open>black.Report\<close>, the run report. It
  accumulates the per-file outcomes of one invocation and determines the status code:
  zero if every file was unchanged or reformatted, 123 if a file failed to format, and,
  in check mode, 1 if a file would be reformatted. The tests fix the numbers, and that a
  file skipped through the cache counts as unchanged and an ignored path is not counted.
\<close>

datatype changed = Changed_NO | Changed_CACHED | Changed_YES

record report =
  check :: bool
  change_count :: nat
  same_count :: nat
  failure_count :: nat

text \<open>
  Modelled from the spec: \<^verbatim>\<open>Report.done\<close>, \<^verbatim>\<open>Report.failed\<close> and
  \<^verbatim>\<open>Report.path_ignored\<close>, each called once per file outcome. In the tests a file that
  is reformatted counts as changed, an unchanged or cache-skipped one as left unchanged,
  and an ignored path changes no count.
\<close>

definition report_done :: "report \<Rightarrow> path \<Rightarrow> changed \<Rightarrow> report" where
  "report_done r src ch =
     (if ch = Changed_YES then r\<lparr>change_count := change_count r + 1\<rparr>
      else r\<lparr>same_count := same_count r + 1\<rparr>)"

definition report_failed :: "report \<Rightarrow> path \<Rightarrow> str \<Rightarrow> report" where
  "report_failed r src message = r\<lparr>failure_count := failure_count r + 1\<rparr>"

definition path_ignored :: "report \<Rightarrow> path \<Rightarrow> str \<Rightarrow> report" where
  "path_ignored r src message = r"

text \<open>
  Modelled from the spec: \<^verbatim>\<open>Report.return_code\<close>, read once at the end of the batch. A
  failure takes precedence over a change seen in check mode.
\<close>

definition return_code :: "report \<Rightarrow> int" where
  "return_code r =
     (if 0 < failure_count r then 123
      else if 0 < change_count r \<and> check r then 1
      else 0)"

text \<open>
  Modelled from the spec: \<^verbatim>\<open>black.WriteBack\<close>. An invocation persists its changes,
  only reports them (check mode) or only previews them as a diff.
\<close>

datatype write_back = WriteBack_NO | WriteBack_YES | WriteBack_DIFF

definition write_back_from_configuration :: "bool \<Rightarrow> bool \<Rightarrow> write_back" where
  "write_back_from_configuration chk diff =
     (if diff then WriteBack_DIFF else if chk then WriteBack_NO else WriteBack_YES)"

text \<open>
  What the batch driver calls and this development leaves open: whether a pattern given
  for include or exclude is well formed, what formatting one file gives (an exception,
  no change, or the file as rewritten) and what formatting standard input gives (an
  exception, or whether the text changed).
\<close>

record batch_env =
  valid_regex :: "string \<Rightarrow> bool"
  format_file :: "path \<Rightarrow> exc + file_state option"
  format_stdin :: "exc + bool"

text \<open>
  Modelled from the spec: merging one worker outcome into the run report, and the write
  of a reformatted file, both part of the missing batch driver. A failure is recorded
  for that file only. A result has \<open>succeeded\<close> when the worker did not raise, and the
  file is \<open>reformatted\<close> when the worker rewrote it (or would, in a mode that does not
  persist).
\<close>

fun merge_outcome :: "report \<Rightarrow> path \<times> (exc + file_state option) \<Rightarrow> report" where
  "merge_outcome r (src, Inl ex) = report_failed r src (exc_str ex)"
| "merge_outcome r (src, Inr None) = report_done r src Changed_NO"
| "merge_outcome r (src, Inr (Some f)) = report_done r src Changed_YES"

fun persist :: "filesystem \<Rightarrow> path \<times> (exc + file_state option) \<Rightarrow> filesystem" where
  "persist fs (src, Inr (Some f)) = fs(src := f)"
| "persist fs _ = fs"

text \<open>
  Modelled from the spec: the two ways the missing batch driver reads a worker's result,
  as a success (it goes to the cache) and as a change (it counts as reformatted).
\<close>

definition succeeded :: "path \<times> (exc + file_state option) \<Rightarrow> bool" where
  "succeeded po = (case snd po of Inl ex \<Rightarrow> False | Inr x \<Rightarrow> True)"

definition reformatted :: "path \<times> (exc + file_state option) \<Rightarrow> bool" where
  "reformatted po = (case snd po of Inr (Some f) \<Rightarrow> True | _ \<Rightarrow> False)"

text \<open>
  Modelled from the spec: the dispatch of the cache misses to the worker pool, part of
  the missing batch driver. Each file is processed independently, and the driver awaits
  every result: the outcome is one result per dispatched file.
\<close>

definition dispatch :: "batch_env \<Rightarrow> path list \<Rightarrow> (path \<times> (exc + file_state option)) list" where
  "dispatch b todo = map (\<lambda>src. (src, format_file b src)) todo"

text \<open>
  Modelled from the spec: the state machine of the missing batch driver
  (\<^verbatim>\<open>black.schedule_formatting\<close>): collect paths, split via the cache filter, dispatch
  the misses to the worker pool, await all, merge the outcomes into the run report,
  write the successes to the cache. The cache is never written when the invocation only
  previews or reports changes without persisting them.
\<close>

definition schedule_formatting ::
  "batch_env \<Rightarrow> path list \<Rightarrow> int \<Rightarrow> write_back \<Rightarrow> file_mode \<Rightarrow> report \<Rightarrow>
     cache_dir \<Rightarrow> filesystem \<Rightarrow> report \<times> cache_dir \<times> filesystem" where
  "schedule_formatting b sources line_length wb mode r d fs =
     (let c = read_cache d line_length mode;
          (todo, cached) = filter_cached fs c sources;
          r1 = foldl (\<lambda>r src. report_done r src Changed_CACHED) r cached;
          results = dispatch b todo;
          r2 = foldl merge_outcome r1 results;
          formatted = map fst (filter succeeded results);
          fs' = (if wb = WriteBack_YES then foldl persist fs results else fs);
          d' = (if wb = WriteBack_YES then write_cache fs' d c formatted line_length mode
                else d)
      in (r2, d', fs'))"

text \<open>
  Modelled from the spec: the batch command-line surface (\<^verbatim>\<open>black.main\<close>). It takes
  file arguments or the standard-input stream; a malformed include or exclude pattern is
  reported before any file is processed, with status 2; input from the stream neither
  reads nor writes the cache; the status is otherwise the one of the run report.
\<close>

datatype src_arg = Stdin | Paths "path list"

record invocation =
  inv_line_length :: int
  inv_mode :: file_mode
  inv_check :: bool
  inv_diff :: bool
  inv_include :: string
  inv_exclude :: string
  inv_src :: src_arg

definition black_main ::
  "batch_env \<Rightarrow> invocation \<Rightarrow> cache_dir \<Rightarrow> filesystem \<Rightarrow> int \<times> cache_dir \<times> filesystem" where
  "black_main b iv d fs =
     (if \<not> valid_regex b (inv_include iv) \<or> \<not> valid_regex b (inv_exclude iv) then (2, d, fs)
      else
        let wb = write_back_from_configuration (inv_check iv) (inv_diff iv);
            r0 = \<lparr>check = inv_check iv, change_count = 0, same_count = 0, failure_count = 0\<rparr>
        in case inv_src iv of
             Stdin \<Rightarrow>
               (let r = (case format_stdin b of
                           Inl ex \<Rightarrow> report_failed r0 ''-'' (exc_str ex)
                         | Inr ch \<Rightarrow> report_done r0 ''-'' (if ch then Changed_YES else Changed_NO))
                in (return_code r, d, fs))
           | Paths sources \<Rightarrow>
               (case schedule_formatting b sources (inv_line_length iv) wb (inv_mode iv) r0 d fs of
                  (r, d', fs') \<Rightarrow> (return_code r, d', fs')))"

section \<open>The scenarios of the tests\<close>

text \<open>
  The daemon tests send \<^verbatim>\<open>print('hello world')\<close>, its formatted form and
  \<^verbatim>\<open>what even (is this\<close> from a mock peer. \<open>scenario_format\<close> answers these three
  requests the way the tests expect of \<^verbatim>\<open>black.format_file_contents\<close>;
  \<open>scenario_env\<close> binds the default port only.
\<close>

definition scenario_format :: "str \<Rightarrow> int \<Rightarrow> bool \<Rightarrow> file_mode \<Rightarrow> exc + str" where
  \<open>scenario_format src line_length fast mode =
     (if src = Str ''print('hello world')'' then Inr (Str ''print("hello world")\<newline>'')
      else if src = Str ''print("hello world")\<newline>'' then Inl NothingChanged
      else Inl (OtherException (Str (''Cannot parse: 1:13: '' @ utf8 src))))\<close>

definition scenario_env :: env where
  "scenario_env =
     \<lparr>format_file_contents = scenario_format,
      decode_error_str = (\<lambda>b. Str ''invalid start byte''),
      start_server = (\<lambda>host port. if port = 45484 then Inr (Server host port)
                                   else Inl (OtherException (Str ''address already in use''))),
      version = Str ''18.9b0''\<rparr>"

definition mock_connection :: "bytes \<Rightarrow> connection" where
  "mock_connection body = \<lparr>peername = ''Mock peer'', incoming = Inr body, draining = None\<rparr>"



definition fresh_io :: io where
  "fresh_io = \<lparr>writer_calls = [], out_lines = []\<rparr>"

definition python36 :: file_mode where
  "python36 = from_configuration True False False"

section \<open>The scenarios of the cache tests\<close>

text \<open>
  The cache tests run the batch driver on a file that fails to parse, a file that is
  already formatted and files that need reformatting, and filter a cached, a changed
  and an uncached file. The failing file has here a record from an earlier run, made
  before it was edited.
\<close>

definition auto_detect :: file_mode where
  "auto_detect = from_configuration False False False"

definition batch_scenario_env :: batch_env where
  \<open>batch_scenario_env =
     \<lparr>valid_regex = (\<lambda>p. p \<noteq> ''**()(!!*)''),
      format_file = (\<lambda>p. if p = ''failing.py'' then Inl (OtherException (Str ''Cannot parse''))
                          else if p = ''clean.py'' then Inr None
                          else Inr (Some \<lparr>mtime = 7, contents = ''print("hello")\<newline>''\<rparr>)),
      format_stdin = Inr True\<rparr>\<close>

definition batch_scenario_fs :: filesystem where
  \<open>batch_scenario_fs =
     (\<lambda>p. if p = ''failing.py'' then \<lparr>mtime = 2, contents = ''not actually python''\<rparr>
           else if p = ''clean.py'' then \<lparr>mtime = 3, contents = ''print("hello")\<newline>''\<rparr>
           else \<lparr>mtime = 4, contents = ''print('hello')''\<rparr>)\<close>

definition stale_cache_dir :: cache_dir where
  "stale_cache_dir =
     \<lparr>dir_exists = True, dir_writable = True,
      cache_files = [get_cache_file 88 auto_detect \<mapsto> Pickled [''failing.py'' \<mapsto> (1, 10)]]\<rparr>"

definition batch_invocation :: "bool \<Rightarrow> bool \<Rightarrow> string \<Rightarrow> src_arg \<Rightarrow> invocation" where
  "batch_invocation chk diff exclude src =
     \<lparr>inv_line_length = 88, inv_mode = auto_detect, inv_check = chk, inv_diff = diff,
      inv_include = ''.pyi?$'', inv_exclude = exclude, inv_src = src\<rparr>"

definition filter_scenario_fs :: filesystem where
  "filter_scenario_fs = (\<lambda>p. \<lparr>mtime = 1541000000, contents = []\<rparr>)"

definition filter_scenario_dir :: cache_dir where
  "filter_scenario_dir =
     \<lparr>dir_exists = True, dir_writable = True,
      cache_files = [get_cache_file 88 auto_detect \<mapsto>
        Pickled [''cached'' \<mapsto> (1541000000, 0), ''changed'' \<mapsto> (0, 0)]]\<rparr>"

section \<open>The request handler\<close>

lemmas scenario_defs = scenario_env_def scenario_format_def mock_connection_def fresh_io_def
  byte_in_def is_continuation_def encode_utf8_def

lemma written_append: "written (xs @ ys) = written xs @ written ys"
  by (induction xs rule: written.induct) simp_all

lemma writer_calls_writer_do: "writer_calls (writer_do c s) = writer_calls s @ [c]"
  by (simp add: writer_do_def)

lemma writer_calls_out: "writer_calls (out l s) = writer_calls s"
  by (simp add: out_def)

text \<open>The drain is always awaited; the writer is closed when the drain returns.\<close>

lemma writer_calls_finally:
  "writer_calls (snd (finally_clause c s)) =
     writer_calls s @ Drain # (if draining c = None then [Close] else [])"
  by (simp add: finally_clause_def Let_def writer_calls_writer_do split: option.splits)


lemma writer_calls_except:
  "writer_calls (except_clauses peer ex s) =
     writer_calls s @
       [Write (case ex of NothingChanged \<Rightarrow> ''OK NO CHANGE\<newline>''
               | _ \<Rightarrow> ''ERROR\<newline>'' @ encode_utf8 (exc_str ex))]"
  by (cases ex) (simp_all add: writer_calls_writer_do writer_calls_out)




text \<open>All calls that \<^verbatim>\<open>new_req\<close> makes on the writer, by the outcome of each step.\<close>

lemma new_req_calls:
  "writer_calls (snd (new_req e ll fast mode c s)) =
     writer_calls s @
       Write (case incoming c of
                 Inl ex \<Rightarrow> (case ex of NothingChanged \<Rightarrow> ''OK NO CHANGE\<newline>''
                            | _ \<Rightarrow> ''ERROR\<newline>'' @ encode_utf8 (exc_str ex))
               | Inr b \<Rightarrow>
                  (case decode_utf8 (decode_error_str e) b of
                     Inl ex \<Rightarrow> (case ex of NothingChanged \<Rightarrow> ''OK NO CHANGE\<newline>''
                            | _ \<Rightarrow> ''ERROR\<newline>'' @ encode_utf8 (exc_str ex))
                   | Inr req_str \<Rightarrow>
                      (case format_file_contents e req_str ll fast mode of
                         Inl ex \<Rightarrow> (case ex of NothingChanged \<Rightarrow> ''OK NO CHANGE\<newline>''
                            | _ \<Rightarrow> ''ERROR\<newline>'' @ encode_utf8 (exc_str ex))
                       | Inr dst \<Rightarrow> ''OK\<newline>'' @ encode_utf8 dst))) #
       Drain # (if draining c = None then [Close] else [])"
  by (simp add: new_req_def try_body_def Let_def writer_calls_finally writer_calls_except
      writer_calls_out writer_calls_writer_do split: sum.splits)

text \<open>
  Claim C1. For a connection whose request body was read and is well-formed UTF-8: if
  \<^verbatim>\<open>black.format_file_contents\<close> returns the formatted text, the response written is
  \<^verbatim>\<open>OK\n\<close> followed by the UTF-8 encoding of that text; if it raises
  \<^verbatim>\<open>NothingChanged\<close>, the response is exactly \<^verbatim>\<open>OK NO CHANGE\n\<close>; if it raises any
  other exception, the response is \<^verbatim>\<open>ERROR\n\<close> followed by the UTF-8 encoding of the
  exception's message. Nothing else is written to the connection.
\<close>

theorem new_req_response:
  assumes "incoming c = Inr req_bytes" and "valid_utf8 req_bytes"
  shows "(format_file_contents e (Str req_bytes) ll fast mode = Inr dst \<longrightarrow>
            written (writer_calls (snd (new_req e ll fast mode c s))) =
              written (writer_calls s) @ [''OK\<newline>'' @ encode_utf8 dst]) \<and>
         (format_file_contents e (Str req_bytes) ll fast mode = Inl NothingChanged \<longrightarrow>
            written (writer_calls (snd (new_req e ll fast mode c s))) =
              written (writer_calls s) @ [''OK NO CHANGE\<newline>'']) \<and>
         (format_file_contents e (Str req_bytes) ll fast mode = Inl ex \<and> ex \<noteq> NothingChanged \<longrightarrow>
            written (writer_calls (snd (new_req e ll fast mode c s))) =
              written (writer_calls s) @ [''ERROR\<newline>'' @ encode_utf8 (exc_str ex)])"
  using assms
  by (cases ex) (simp_all add: new_req_calls decode_utf8_def written_append)

text \<open>The three protocol scenarios of the tests, each through the theorem.\<close>

theorem new_req_response_witness:
  \<open>written (writer_calls (snd (new_req scenario_env 88 True python36
      (mock_connection ''print('hello world')'') fresh_io))) =
     [''OK\<newline>print("hello world")\<newline>''] \<and>
   written (writer_calls (snd (new_req scenario_env 88 True python36
      (mock_connection ''print("hello world")\<newline>'') fresh_io))) =
     [''OK NO CHANGE\<newline>''] \<and>
   written (writer_calls (snd (new_req scenario_env 88 True python36
      (mock_connection ''what even (is this'') fresh_io))) =
     [''ERROR\<newline>Cannot parse: 1:13: what even (is this'']\<close>
  using
    new_req_response [of \<open>mock_connection ''print('hello world')''\<close> \<open>''print('hello world')''\<close>
      scenario_env 88 True python36 \<open>Str ''print("hello world")\<newline>''\<close> fresh_io NothingChanged]
    new_req_response [of \<open>mock_connection ''print("hello world")\<newline>''\<close>
      \<open>''print("hello world")\<newline>''\<close>
      scenario_env 88 True python36 \<open>Str []\<close> fresh_io NothingChanged]
    new_req_response [of \<open>mock_connection ''what even (is this''\<close> \<open>''what even (is this''\<close>
      scenario_env 88 True python36 \<open>Str []\<close> fresh_io
      \<open>OtherException (Str ''Cannot parse: 1:13: what even (is this'')\<close>]
  by (simp add: scenario_defs)







text \<open>
  Claim C10. The response is a function of the request body, the startup parameters and
  the formatting function: two connections with equal request bodies receive the same
  response bytes, whatever their peers are, whatever the daemon has printed and served
  before each of them, and whether or not they are still there when the response is
  drained. When their drains end alike, all calls on their writers are the same.
\<close>

theorem response_depends_on_request_only:
  assumes "incoming c1 = Inr body" and "incoming c2 = Inr body"
  shows "written (last (handled (serve (new_req e ll fast mode) c1 d1))) =
         written (last (handled (serve (new_req e ll fast mode) c2 d2))) \<and>
         (draining c1 = draining c2 \<longrightarrow>
            last (handled (serve (new_req e ll fast mode) c1 d1)) =
            last (handled (serve (new_req e ll fast mode) c2 d2)))"
proof -
  have h: "last (handled (serve (new_req e ll fast mode) c d)) =
           writer_calls (snd (new_req e ll fast mode c
             \<lparr>writer_calls = [], out_lines = printed d\<rparr>))" for c d
    by (simp add: serve_def Let_def split: prod.splits)
  show ?thesis
    using assms by (simp add: h new_req_calls written_append)
qed

theorem response_depends_on_request_only_witness:
  "written (last (handled (serve (new_req scenario_env 88 True python36)
      \<lparr>peername = ''first peer'', incoming = Inr ''x'', draining = None\<rparr>
      \<lparr>printed = [], handled = [], closed_servers = []\<rparr>))) =
   written (last (handled (serve (new_req scenario_env 88 True python36)
      \<lparr>peername = ''second peer'', incoming = Inr ''x'',
       draining = Some (OtherException (Str ''Connection lost''))\<rparr>
      \<lparr>printed = [Got ''first peer'' 1], handled = [[Write ''OK'', Drain, Close]],
       closed_servers = []\<rparr>)))"
  using response_depends_on_request_only
    [of "\<lparr>peername = ''first peer'', incoming = Inr ''x'', draining = None\<rparr>"
      "''x''" "\<lparr>peername = ''second peer'', incoming = Inr ''x'',
       draining = Some (OtherException (Str ''Connection lost''))\<rparr>"
      scenario_env 88 True python36 "\<lparr>printed = [], handled = [], closed_servers = []\<rparr>"
      "\<lparr>printed = [Got ''first peer'' 1], handled = [[Write ''OK'', Drain, Close]],
       closed_servers = []\<rparr>", THEN conjunct1]
  by simp

section \<open>The entry point of the daemon\<close>

text \<open>
  Claim C9. When \<^verbatim>\<open>asyncio.start_server\<close> raises (the port is in use, say), the
  \<^verbatim>\<open>finally\<close> clause of \<^verbatim>\<open>main\<close> still evaluates \<^verbatim>\<open>server.close()\<close>, with
  \<^verbatim>\<open>server\<close> never assigned: \<^verbatim>\<open>main\<close> ends with an \<^verbatim>\<open>UnboundLocalError\<close> for
  \<^verbatim>\<open>server\<close>, nothing printed and no server closed.
\<close>

theorem main_bind_failure:
  assumes "start_server e bind_host bind_port = Inl ex"
  shows "main e ll fast pi p36 ssn bind_host bind_port evs =
           Raised (UnboundLocalError ''server'')
             \<lparr>printed = [], handled = [], closed_servers = []\<rparr>"
  using assms by (simp add: main_def main_finally_def Let_def)

theorem main_bind_failure_witness:
  "main scenario_env 88 False False False False ''localhost'' 80 [] =
     Raised (UnboundLocalError ''server'') \<lparr>printed = [], handled = [], closed_servers = []\<rparr>"
  using main_bind_failure [of scenario_env "''localhost''" 80
      "OtherException (Str ''address already in use'')" 88 False False False False "[]"]
  by (simp add: scenario_env_def)

text \<open>
  The loop ends normally only at a \<^verbatim>\<open>loop.stop()\<close>, and \<^verbatim>\<open>main\<close> then closes the server
  and returns.
\<close>

lemma run_forever_Stopped: "fst (run_forever h evs d) = Stopped \<Longrightarrow> Loop_stop \<in> set evs"
  by (induction h evs d rule: run_forever.induct) simp_all

lemma closed_servers_serve: "closed_servers (serve h c d) = closed_servers d"
  by (simp add: serve_def Let_def split: prod.splits)

lemma run_forever_connections:
  "\<exists>d'. run_forever h (map Connection cs @ Loop_stop # evs) d = (Stopped, d') \<and>
        closed_servers d' = closed_servers d"
proof (induction cs arbitrary: d)
  case Nil
  show ?case by simp
next
  case (Cons c cs)
  from Cons [of "serve h c d"] show ?case
    by (simp add: closed_servers_serve)
qed

lemma main_returns_on_loop_stop:
  assumes "start_server e bind_host bind_port = Inr sv"
  shows "\<exists>d. main e ll fast pi p36 ssn bind_host bind_port (map Connection cs @ Loop_stop # evs)
              = Returned d \<and> closed_servers d = [sv]"
proof -
  let ?d1 = "\<lparr>printed = [Listening (version e) bind_host bind_port], handled = [],
               closed_servers = []\<rparr>"
  let ?h = "new_req e ll fast (from_configuration p36 pi ssn)"
  obtain d' where r: "run_forever ?h (map Connection cs @ Loop_stop # evs) ?d1 = (Stopped, d')"
    and c: "closed_servers d' = []"
    using run_forever_connections [of ?h cs evs ?d1] by auto
  with assms show ?thesis
    by (simp add: main_def main_finally_def Let_def)
qed

text \<open>
  Claim C7 asks for a shutdown signal that makes the daemon stop accepting and exit with
  success. The module has none: it binds no name \<^verbatim>\<open>_stop_signal\<close>, so the test's
  \<^verbatim>\<open>blackd._stop_signal\<close> raises \<^verbatim>\<open>AttributeError\<close>; and unless a caller stops the
  event loop itself with \<^verbatim>\<open>loop.stop()\<close>, \<^verbatim>\<open>main\<close> never returns, whatever connections
  and interrupts arrive.
\<close>

theorem no_shutdown_signal:
  "blackd_getattr ''_stop_signal'' = Inl (AttributeError ''_stop_signal'') \<and>
   (Loop_stop \<notin> set evs \<longrightarrow>
      (\<nexists>d. main e ll fast pi p36 ssn bind_host bind_port evs = Returned d))"
proof -
  have a: "blackd_getattr ''_stop_signal'' = Inl (AttributeError ''_stop_signal'')"
    by (simp add: blackd_getattr_def blackd_names_def)
  have b: "\<nexists>d. main e ll fast pi p36 ssn bind_host bind_port evs = Returned d"
    if no_stop: "Loop_stop \<notin> set evs"
  proof (cases "start_server e bind_host bind_port")
    case (Inl ex)
    then show ?thesis by (simp add: main_def main_finally_def Let_def)
  next
    case (Inr sv)
    let ?d1 = "\<lparr>printed = [Listening (version e) bind_host bind_port], handled = [],
                 closed_servers = []\<rparr>"
    let ?h = "new_req e ll fast (from_configuration p36 pi ssn)"
    obtain x d2 where r: "run_forever ?h evs ?d1 = (x, d2)" by (cases "run_forever ?h evs ?d1")
    have "x \<noteq> Stopped" using run_forever_Stopped [of ?h evs ?d1] r no_stop by auto
    with Inr r show ?thesis
      by (cases x) (simp_all add: main_def main_finally_def Let_def)
  qed
  from a b show ?thesis by blast
qed

theorem no_shutdown_signal_witness:
  "blackd_getattr ''_stop_signal'' = Inl (AttributeError ''_stop_signal'') \<and>
   (\<nexists>d. main scenario_env 88 False False False False ''localhost'' 45484
      [Connection (mock_connection ''x''), Keyboard_interrupt] = Returned d)"
proof -
  have n: "Loop_stop \<notin> set [Connection (mock_connection ''x''), Keyboard_interrupt]" by simp
  note t = no_shutdown_signal [of "[Connection (mock_connection ''x''), Keyboard_interrupt]"
      scenario_env 88 False False False False "''localhost''" 45484]
  from t [THEN conjunct1] t [THEN conjunct2, THEN mp, OF n] show ?thesis by (intro conjI)
qed

section \<open>The cache\<close>

lemmas batch_scenario_defs = batch_scenario_env_def batch_scenario_fs_def stale_cache_dir_def
  batch_invocation_def

lemmas batch_run_defs = black_main_def schedule_formatting_def dispatch_def succeeded_def
  write_back_from_configuration_def read_cache_def write_cache_def get_cache_info_def

lemmas batch_eval_defs = batch_scenario_env_def batch_scenario_fs_def stale_cache_dir_def
  batch_invocation_def dispatch_def succeeded_def reformatted_def read_cache_def
  get_cache_info_def

lemma filter_cached_todo:
  "set (fst (filter_cached fs c sources)) =
     {p \<in> set sources. c p \<noteq> Some (get_cache_info fs p)}"
proof (induction sources)
  case Nil
  show ?case by simp
next
  case (Cons a sources)
  obtain t dn where r: "filter_cached fs c sources = (t, dn)"
    by (cases "filter_cached fs c sources")
  with Cons show ?case by auto
qed

lemma filter_cached_done:
  "set (snd (filter_cached fs c sources)) =
     {p \<in> set sources. c p = Some (get_cache_info fs p)}"
proof (induction sources)
  case Nil
  show ?case by simp
next
  case (Cons a sources)
  obtain t dn where r: "filter_cached fs c sources = (t, dn)"
    by (cases "filter_cached fs c sources")
  with Cons show ?case by auto
qed

lemma read_cache_write_cache_other:
  assumes "(ll', mode') \<noteq> (ll, mode)"
  shows "read_cache (write_cache fs d c srcs ll mode) ll' mode' = read_cache d ll' mode'"
proof -
  have ne: "get_cache_file ll' mode' \<noteq> get_cache_file ll mode"
    using assms by (simp add: get_cache_file_def)
  show ?thesis
  proof (cases "dir_writable d")
    case False
    then show ?thesis by (simp add: write_cache_def)
  next
    case True
    show ?thesis
    proof (cases "dir_exists d")
      case True
      with \<open>dir_writable d\<close> ne show ?thesis
        by (simp add: read_cache_def write_cache_def)
    next
      case False
      with \<open>dir_writable d\<close> ne show ?thesis
        by (simp add: read_cache_def write_cache_def)
    qed
  qed
qed

lemma read_cache_write_cache_same:
  "dir_writable d \<Longrightarrow>
     read_cache (write_cache fs d c srcs ll mode) ll mode =
       c ++ (\<lambda>p. if p \<in> set srcs then Some (get_cache_info fs p) else None)"
  by (simp add: read_cache_def write_cache_def get_cache_file_def)

lemma write_cache_unwritable: "\<not> dir_writable d \<Longrightarrow> write_cache fs d c srcs ll mode = d"
  by (simp add: write_cache_def)

text \<open>
  Claim C5. For every candidate file of a batch run, the cache skips it (puts it in the
  already-done part) if and only if the cache read under the current fingerprint has a
  record for it and the file's current (mtime, size) equals the recorded snapshot; every
  other candidate, with a stale or an absent record, is in the to-process part. A record
  written under one fingerprint is not visible under any other: reading under another
  fingerprint gives what it gave before the write.
\<close>

theorem filter_cached_iff:
  assumes "filter_cached fs (read_cache d ll mode) sources = (todo, dn)"
  shows "(\<forall>p \<in> set sources.
            (p \<in> set dn \<longleftrightarrow>
               (\<exists>snap. read_cache d ll mode p = Some snap \<and> get_cache_info fs p = snap)) \<and>
            (p \<in> set todo \<longleftrightarrow> p \<notin> set dn)) \<and>
         set todo \<union> set dn = set sources \<and>
         (\<forall>ll' mode' c srcs. (ll', mode') \<noteq> (ll, mode) \<longrightarrow>
            read_cache (write_cache fs d c srcs ll mode) ll' mode' = read_cache d ll' mode')"
proof -
  have t: "set todo = {p \<in> set sources. read_cache d ll mode p \<noteq> Some (get_cache_info fs p)}"
    using filter_cached_todo [of fs "read_cache d ll mode" sources] assms by simp
  have dn: "set dn = {p \<in> set sources. read_cache d ll mode p = Some (get_cache_info fs p)}"
    using filter_cached_done [of fs "read_cache d ll mode" sources] assms by simp
  have a: "\<forall>p \<in> set sources.
            (p \<in> set dn \<longleftrightarrow>
               (\<exists>snap. read_cache d ll mode p = Some snap \<and> get_cache_info fs p = snap)) \<and>
            (p \<in> set todo \<longleftrightarrow> p \<notin> set dn)"
    using t dn by auto
  have b: "set todo \<union> set dn = set sources"
    using t dn by auto
  have c: "\<forall>ll' mode' c srcs. (ll', mode') \<noteq> (ll, mode) \<longrightarrow>
            read_cache (write_cache fs d c srcs ll mode) ll' mode' = read_cache d ll' mode'"
    using read_cache_write_cache_other by blast
  from a b c show ?thesis by (intro conjI)
qed

theorem filter_cached_iff_witness:
  "filter_cached filter_scenario_fs (read_cache filter_scenario_dir 88 auto_detect)
      [''uncached'', ''cached'', ''changed''] = ([''uncached'', ''changed''], [''cached'']) \<and>
   read_cache filter_scenario_dir 88 auto_detect ''cached'' =
      Some (get_cache_info filter_scenario_fs ''cached'') \<and>
   read_cache (write_cache filter_scenario_fs filter_scenario_dir Map.empty [''file.py'']
      88 auto_detect) 2 auto_detect = read_cache filter_scenario_dir 2 auto_detect"
proof -
  have r: "filter_cached filter_scenario_fs (read_cache filter_scenario_dir 88 auto_detect)
      [''uncached'', ''cached'', ''changed''] = ([''uncached'', ''changed''], [''cached''])"
    by (simp add: filter_scenario_fs_def filter_scenario_dir_def read_cache_def
        get_cache_info_def)
  note t = filter_cached_iff [OF r]
  have m: "''cached'' \<in> set [''uncached'', ''cached'', ''changed'']" by simp
  have dn: "''cached'' \<in> set [''cached'']" by simp
  from t [THEN conjunct1, rule_format, OF m, THEN conjunct1, THEN iffD1, OF dn]
  have a: "read_cache filter_scenario_dir 88 auto_detect ''cached'' =
             Some (get_cache_info filter_scenario_fs ''cached'')"
    by blast
  have ne: "(2, auto_detect) \<noteq> (88 :: int, auto_detect)" by simp
  have d: "read_cache (write_cache filter_scenario_fs filter_scenario_dir Map.empty [''file.py'']
      88 auto_detect) 2 auto_detect = read_cache filter_scenario_dir 2 auto_detect"
    by (rule t [THEN conjunct2, THEN conjunct2, rule_format, OF ne])
  from r a d show ?thesis by (intro conjI)
qed

lemma cached_fold_counts:
  "failure_count (foldl (\<lambda>r src. report_done r src Changed_CACHED) r cached) = failure_count r \<and>
   change_count (foldl (\<lambda>r src. report_done r src Changed_CACHED) r cached) = change_count r \<and>
   check (foldl (\<lambda>r src. report_done r src Changed_CACHED) r cached) = check r"
  by (induction cached arbitrary: r) (simp_all add: report_done_def)

lemma merge_outcome_counts:
  "failure_count (merge_outcome r po) = failure_count r + (if succeeded po then 0 else 1) \<and>
   change_count (merge_outcome r po) = change_count r + (if reformatted po then 1 else 0) \<and>
   check (merge_outcome r po) = check r"
  by (cases "(r, po)" rule: merge_outcome.cases)
     (simp_all add: succeeded_def reformatted_def report_done_def report_failed_def)

lemma merge_fold_counts:
  "failure_count (foldl merge_outcome r results) =
     failure_count r + length (filter (\<lambda>po. \<not> succeeded po) results) \<and>
   change_count (foldl merge_outcome r results) =
     change_count r + length (filter reformatted results) \<and>
   check (foldl merge_outcome r results) = check r"
  by (induction results arbitrary: r) (simp_all add: merge_outcome_counts)

lemma schedule_formatting_report:
  assumes "schedule_formatting b sources ll wb mode r d fs = (r', d', fs')"
  shows "failure_count r' = failure_count r +
           length (filter (\<lambda>po. \<not> succeeded po)
             (dispatch b (fst (filter_cached fs (read_cache d ll mode) sources)))) \<and>
         change_count r' = change_count r +
           length (filter reformatted
             (dispatch b (fst (filter_cached fs (read_cache d ll mode) sources)))) \<and>
         check r' = check r"
  using assms
  by (auto simp: schedule_formatting_def Let_def merge_fold_counts cached_fold_counts
      split: prod.splits)

lemma formatted_iff:
  "p \<in> set (map fst (filter succeeded (dispatch b todo))) \<longleftrightarrow>
     p \<in> set todo \<and> (\<exists>x. format_file b p = Inr x)"
  by (induction todo) (auto simp: dispatch_def succeeded_def split: sum.splits)

lemma write_cache_changes:
  assumes "read_cache (write_cache fs d (read_cache d ll mode) srcs ll mode) ll' mode' p
             \<noteq> read_cache d ll' mode' p"
  shows "(ll', mode') = (ll, mode) \<and> p \<in> set srcs"
proof -
  have w: "dir_writable d"
  proof (rule ccontr)
    assume "\<not> dir_writable d"
    then have "write_cache fs d (read_cache d ll mode) srcs ll mode = d"
      by (rule write_cache_unwritable)
    with assms show False by simp
  qed
  have eq: "(ll', mode') = (ll, mode)"
  proof (rule ccontr)
    assume "(ll', mode') \<noteq> (ll, mode)"
    then have "read_cache (write_cache fs d (read_cache d ll mode) srcs ll mode) ll' mode' =
               read_cache d ll' mode'"
      by (rule read_cache_write_cache_other)
    with assms show False by simp
  qed
  then have "ll' = ll" and "mode' = mode" by simp_all
  with assms w have "p \<in> set srcs"
    by (auto simp: read_cache_write_cache_same map_add_def split: if_splits)
  with eq show ?thesis by simp
qed

lemma schedule_formatting_cache:
  assumes "schedule_formatting b sources ll wb mode r d fs = (r', d', fs')"
    and "read_cache d' ll' mode' p \<noteq> read_cache d ll' mode' p"
  shows "wb = WriteBack_YES \<and> (ll', mode') = (ll, mode) \<and>
         p \<in> set (fst (filter_cached fs (read_cache d ll mode) sources)) \<and>
         (\<exists>x. format_file b p = Inr x)"
proof -
  let ?todo = "fst (filter_cached fs (read_cache d ll mode) sources)"
  let ?formatted = "map fst (filter succeeded (dispatch b ?todo))"
  have d': "d' = (if wb = WriteBack_YES
                  then write_cache fs' d (read_cache d ll mode) ?formatted ll mode else d)"
    using assms(1) by (auto simp: schedule_formatting_def Let_def split: prod.splits)
  have yes: "wb = WriteBack_YES" using d' assms(2) by (cases "wb = WriteBack_YES") auto
  with d' assms(2) have "(ll', mode') = (ll, mode) \<and> p \<in> set ?formatted"
    using write_cache_changes [of fs' d ll mode ?formatted ll' mode' p] by simp
  with yes show ?thesis using formatted_iff [of p b ?todo] by simp
qed

lemma schedule_formatting_diff:
  assumes "schedule_formatting b sources ll wb mode r d fs = (r', d', fs')"
    and "wb \<noteq> WriteBack_YES"
  shows "d' = d"
  using assms by (auto simp: schedule_formatting_def Let_def split: prod.splits)

text \<open>
  Claim C4, as the cache is specified: the failed file of a run can still appear in the
  cache afterwards, with the record an earlier run left. Here \<^verbatim>\<open>failing.py\<close> has a
  record that no longer matches the file, is dispatched, fails (status 123), and its old
  record is still there after the run.
\<close>

theorem failed_file_in_cache_counterexample:
  "format_file batch_scenario_env ''failing.py'' = Inl (OtherException (Str ''Cannot parse'')) \<and>
   ''failing.py'' \<in> set (fst (filter_cached batch_scenario_fs
      (read_cache stale_cache_dir 88 auto_detect) [''failing.py'', ''clean.py''])) \<and>
   fst (black_main batch_scenario_env
      (batch_invocation False False ''build/'' (Paths [''failing.py'', ''clean.py'']))
      stale_cache_dir batch_scenario_fs) = 123 \<and>
   read_cache (fst (snd (black_main batch_scenario_env
      (batch_invocation False False ''build/'' (Paths [''failing.py'', ''clean.py'']))
      stale_cache_dir batch_scenario_fs))) 88 auto_detect ''failing.py'' = Some (1, 10)"
  by (simp add: batch_scenario_defs batch_run_defs return_code_def report_done_def
      report_failed_def Let_def map_add_def)

text \<open>
  Claim C4, amended. A run writes a cache record only for a file that it dispatched and
  that was formatted (or found already formatted) without error, and only under the
  fingerprint of the run: every entry that differs after the run belongs to such a file.
  So a file whose format attempt failed has after the run the entry it had before (none
  if it had none); a run in diff-preview mode leaves the cache as it was; and so does
  input delivered on standard input.
\<close>

theorem cache_written_only_after_success:
  assumes "black_main b iv d fs = (code, d', fs')"
  shows "(\<forall>ll' mode' p. read_cache d' ll' mode' p \<noteq> read_cache d ll' mode' p \<longrightarrow>
            (\<exists>sources. inv_src iv = Paths sources \<and>
               p \<in> set (fst (filter_cached fs
                      (read_cache d (inv_line_length iv) (inv_mode iv)) sources))) \<and>
            (\<exists>x. format_file b p = Inr x) \<and>
            (ll', mode') = (inv_line_length iv, inv_mode iv)) \<and>
         (\<forall>ll' mode' p ex. format_file b p = Inl ex \<longrightarrow>
            read_cache d' ll' mode' p = read_cache d ll' mode' p) \<and>
         (inv_diff iv \<longrightarrow> d' = d) \<and>
         (inv_src iv = Stdin \<longrightarrow> d' = d)"
proof -
  have changes: "(\<exists>sources. inv_src iv = Paths sources \<and>
               p \<in> set (fst (filter_cached fs
                      (read_cache d (inv_line_length iv) (inv_mode iv)) sources))) \<and>
            (\<exists>x. format_file b p = Inr x) \<and>
            (ll', mode') = (inv_line_length iv, inv_mode iv)"
    if ne: "read_cache d' ll' mode' p \<noteq> read_cache d ll' mode' p" for ll' mode' p
  proof (cases "\<not> valid_regex b (inv_include iv) \<or> \<not> valid_regex b (inv_exclude iv)")
    case True
    with assms have "d' = d" by (auto simp: black_main_def)
    with ne show ?thesis by simp
  next
    case False
    show ?thesis
    proof (cases "inv_src iv")
      case Stdin
      with False assms have "d' = d" by (auto simp: black_main_def Let_def)
      with ne show ?thesis by simp
    next
      case (Paths sources)
      let ?wb = "write_back_from_configuration (inv_check iv) (inv_diff iv)"
      let ?r0 = "\<lparr>check = inv_check iv, change_count = 0, same_count = 0, failure_count = 0\<rparr>"
      obtain r' where sf: "schedule_formatting b sources (inv_line_length iv) ?wb (inv_mode iv)
                             ?r0 d fs = (r', d', fs')"
        using False Paths assms by (auto simp: black_main_def Let_def split: prod.splits)
      from schedule_formatting_cache [OF sf ne] Paths show ?thesis by simp
    qed
  qed
  have diff: "d' = d" if "inv_diff iv"
  proof (cases "\<not> valid_regex b (inv_include iv) \<or> \<not> valid_regex b (inv_exclude iv)")
    case True
    with assms show ?thesis by (auto simp: black_main_def)
  next
    case False
    show ?thesis
    proof (cases "inv_src iv")
      case Stdin
      with False assms show ?thesis by (auto simp: black_main_def Let_def)
    next
      case (Paths sources)
      let ?wb = "write_back_from_configuration (inv_check iv) (inv_diff iv)"
      let ?r0 = "\<lparr>check = inv_check iv, change_count = 0, same_count = 0, failure_count = 0\<rparr>"
      obtain r' where sf: "schedule_formatting b sources (inv_line_length iv) ?wb (inv_mode iv)
                             ?r0 d fs = (r', d', fs')"
        using False Paths assms by (auto simp: black_main_def Let_def split: prod.splits)
      have "?wb \<noteq> WriteBack_YES" using that by (simp add: write_back_from_configuration_def)
      from schedule_formatting_diff [OF sf this] show ?thesis .
    qed
  qed
  have stdin: "d' = d" if "inv_src iv = Stdin"
    using that assms by (auto simp: black_main_def Let_def split: if_splits)
  have failed: "read_cache d' ll' mode' p = read_cache d ll' mode' p"
    if "format_file b p = Inl ex" for ll' mode' p ex
    using changes [of ll' mode' p] that by auto
  from changes failed diff stdin show ?thesis by blast
qed

theorem cache_written_only_after_success_witness:
  "read_cache (fst (snd (black_main batch_scenario_env
      (batch_invocation False False ''build/'' (Paths [''failing.py'', ''clean.py'']))
      stale_cache_dir batch_scenario_fs))) 88 auto_detect ''failing.py'' =
     read_cache stale_cache_dir 88 auto_detect ''failing.py'' \<and>
   fst (snd (black_main batch_scenario_env
      (batch_invocation False True ''build/'' (Paths [''failing.py'', ''clean.py'', ''new.py'']))
      stale_cache_dir batch_scenario_fs)) = stale_cache_dir \<and>
   fst (snd (black_main batch_scenario_env
      (batch_invocation False False ''build/'' Stdin)
      stale_cache_dir batch_scenario_fs)) = stale_cache_dir"
proof -
  let ?run1 = "black_main batch_scenario_env
      (batch_invocation False False ''build/'' (Paths [''failing.py'', ''clean.py'']))
      stale_cache_dir batch_scenario_fs"
  let ?run2 = "black_main batch_scenario_env
      (batch_invocation False True ''build/'' (Paths [''failing.py'', ''clean.py'', ''new.py'']))
      stale_cache_dir batch_scenario_fs"
  let ?run3 = "black_main batch_scenario_env
      (batch_invocation False False ''build/'' Stdin)
      stale_cache_dir batch_scenario_fs"
  have r1: "?run1 = (fst ?run1, fst (snd ?run1), snd (snd ?run1))" by (rule prod_eqI) simp_all
  have r2: "?run2 = (fst ?run2, fst (snd ?run2), snd (snd ?run2))" by (rule prod_eqI) simp_all
  have r3: "?run3 = (fst ?run3, fst (snd ?run3), snd (snd ?run3))" by (rule prod_eqI) simp_all
  have f: "format_file batch_scenario_env ''failing.py'' = Inl (OtherException (Str ''Cannot parse''))"
    by (simp add: batch_scenario_env_def)
  have dm: "inv_diff (batch_invocation False True ''build/''
              (Paths [''failing.py'', ''clean.py'', ''new.py'']))"
    by (simp add: batch_invocation_def)
  have st: "inv_src (batch_invocation False False ''build/'' Stdin) = Stdin"
    by (simp add: batch_invocation_def)
  have a: "read_cache (fst (snd ?run1)) 88 auto_detect ''failing.py'' =
           read_cache stale_cache_dir 88 auto_detect ''failing.py''"
    by (rule cache_written_only_after_success
        [OF r1, THEN conjunct2, THEN conjunct1, rule_format, OF f])
  have b: "fst (snd ?run2) = stale_cache_dir"
    by (rule cache_written_only_after_success
        [OF r2, THEN conjunct2, THEN conjunct2, THEN conjunct1, rule_format, OF dm])
  have c: "fst (snd ?run3) = stale_cache_dir"
    by (rule cache_written_only_after_success
        [OF r3, THEN conjunct2, THEN conjunct2, THEN conjunct2, rule_format, OF st])
  from a b c show ?thesis by (intro conjI)
qed

section \<open>The exit status\<close>

lemma return_code_cases:
  "return_code r =
     (if 0 < failure_count r then 123 else if 0 < change_count r \<and> check r then 1 else 0)"
  by (simp add: return_code_def)

lemma filter_nonempty_iff: "0 < length (filter P xs) \<longleftrightarrow> (\<exists>x \<in> set xs. P x)"
  by (induction xs) auto

lemma batch_return_code:
  assumes "schedule_formatting b sources ll wb mode
             \<lparr>check = chk, change_count = 0, same_count = 0, failure_count = 0\<rparr> d fs
           = (r', d', fs')"
    and "results = dispatch b (fst (filter_cached fs (read_cache d ll mode) sources))"
  shows "return_code r' =
           (if \<exists>po \<in> set results. \<not> succeeded po then 123
            else if chk \<and> (\<exists>po \<in> set results. reformatted po) then 1 else 0)"
proof -
  from schedule_formatting_report [OF assms(1)] assms(2)
  have f: "failure_count r' = length (filter (\<lambda>po. \<not> succeeded po) results)"
    and c: "change_count r' = length (filter reformatted results)"
    and k: "check r' = chk"
    by simp_all
  show ?thesis
    unfolding return_code_cases f c k filter_nonempty_iff by auto
qed

text \<open>
  Claim C6, as the report is specified: check mode with a file that would be reformatted
  does not always give status 1. Here check mode is set, \<^verbatim>\<open>string_quotes.py\<close> is
  dispatched and would be reformatted, \<^verbatim>\<open>failing.py\<close> fails, and the status is 123.
\<close>

theorem check_mode_failure_counterexample:
  "inv_check (batch_invocation True False ''build/''
      (Paths [''string_quotes.py'', ''failing.py''])) \<and>
   reformatted (''string_quotes.py'', format_file batch_scenario_env ''string_quotes.py'') \<and>
   ''string_quotes.py'' \<in> set (fst (filter_cached batch_scenario_fs
      (read_cache stale_cache_dir 88 auto_detect) [''string_quotes.py'', ''failing.py''])) \<and>
   fst (black_main batch_scenario_env
      (batch_invocation True False ''build/'' (Paths [''string_quotes.py'', ''failing.py'']))
      stale_cache_dir batch_scenario_fs) = 123 \<and>
   fst (black_main batch_scenario_env
      (batch_invocation True False ''build/'' (Paths [''string_quotes.py'', ''failing.py'']))
      stale_cache_dir batch_scenario_fs) \<noteq> 1"
  by (simp add: batch_scenario_defs batch_run_defs reformatted_def return_code_def
      report_done_def report_failed_def Let_def)

text \<open>
  Claim C6, amended. The exit status of a batch invocation is 2 for a malformed include
  or exclude pattern, and nothing is processed then. Otherwise, over the files that were
  dispatched (or the standard-input stream): it is 123 when at least one failed to
  format; 1 when check mode is set, at least one would be reformatted and none failed;
  and 0 when none failed and, in check mode, none would be reformatted.
\<close>

theorem black_main_exit_status:
  assumes "black_main b iv d fs = (code, d', fs')"
  shows "(\<not> valid_regex b (inv_include iv) \<or> \<not> valid_regex b (inv_exclude iv) \<longrightarrow>
            code = 2 \<and> d' = d \<and> fs' = fs) \<and>
         (valid_regex b (inv_include iv) \<and> valid_regex b (inv_exclude iv) \<longrightarrow>
            (\<forall>sources results.
               inv_src iv = Paths sources \<and>
               results = dispatch b (fst (filter_cached fs
                  (read_cache d (inv_line_length iv) (inv_mode iv)) sources)) \<longrightarrow>
                 ((\<exists>po \<in> set results. \<not> succeeded po) \<longrightarrow> code = 123) \<and>
                 ((\<forall>po \<in> set results. succeeded po) \<and> inv_check iv \<and>
                    (\<exists>po \<in> set results. reformatted po) \<longrightarrow> code = 1) \<and>
                 ((\<forall>po \<in> set results. succeeded po) \<and>
                    \<not> (inv_check iv \<and> (\<exists>po \<in> set results. reformatted po)) \<longrightarrow> code = 0)) \<and>
            (inv_src iv = Stdin \<longrightarrow>
               ((\<exists>ex. format_stdin b = Inl ex) \<longrightarrow> code = 123) \<and>
               (format_stdin b = Inr True \<and> inv_check iv \<longrightarrow> code = 1) \<and>
               ((\<exists>ch. format_stdin b = Inr ch \<and> \<not> (inv_check iv \<and> ch)) \<longrightarrow> code = 0)))"
proof (cases "\<not> valid_regex b (inv_include iv) \<or> \<not> valid_regex b (inv_exclude iv)")
  case True
  with assms show ?thesis by (auto simp: black_main_def)
next
  case False
  then have v: "valid_regex b (inv_include iv)" "valid_regex b (inv_exclude iv)" by simp_all
  have paths: "((\<exists>po \<in> set results. \<not> succeeded po) \<longrightarrow> code = 123) \<and>
                 ((\<forall>po \<in> set results. succeeded po) \<and> inv_check iv \<and>
                    (\<exists>po \<in> set results. reformatted po) \<longrightarrow> code = 1) \<and>
                 ((\<forall>po \<in> set results. succeeded po) \<and>
                    \<not> (inv_check iv \<and> (\<exists>po \<in> set results. reformatted po)) \<longrightarrow> code = 0)"
    if src: "inv_src iv = Paths sources"
      and res: "results = dispatch b (fst (filter_cached fs
                  (read_cache d (inv_line_length iv) (inv_mode iv)) sources))"
    for sources results
  proof -
    let ?wb = "write_back_from_configuration (inv_check iv) (inv_diff iv)"
    obtain r' where sf: "schedule_formatting b sources (inv_line_length iv) ?wb (inv_mode iv)
        \<lparr>check = inv_check iv, change_count = 0, same_count = 0, failure_count = 0\<rparr> d fs
          = (r', d', fs')" and code: "code = return_code r'"
      using v src assms by (auto simp: black_main_def Let_def split: prod.splits)
    from batch_return_code [OF sf res] code show ?thesis by auto
  qed
  have stdin: "((\<exists>ex. format_stdin b = Inl ex) \<longrightarrow> code = 123) \<and>
               (format_stdin b = Inr True \<and> inv_check iv \<longrightarrow> code = 1) \<and>
               ((\<exists>ch. format_stdin b = Inr ch \<and> \<not> (inv_check iv \<and> ch)) \<longrightarrow> code = 0)"
    if "inv_src iv = Stdin"
    using that v assms
    by (auto simp: black_main_def Let_def return_code_def report_done_def report_failed_def
        split: sum.splits)
  from v paths stdin show ?thesis by blast
qed

theorem black_main_exit_status_witness:
  "fst (black_main batch_scenario_env (batch_invocation False False ''**()(!!*)'' Stdin)
      stale_cache_dir batch_scenario_fs) = 2 \<and>
   fst (black_main batch_scenario_env
      (batch_invocation False False ''build/'' (Paths [''failing.py'', ''clean.py'']))
      stale_cache_dir batch_scenario_fs) = 123 \<and>
   fst (black_main batch_scenario_env
      (batch_invocation True True ''build/'' (Paths [''string_quotes.py'', ''clean.py'']))
      stale_cache_dir batch_scenario_fs) = 1 \<and>
   fst (black_main batch_scenario_env
      (batch_invocation False False ''build/'' (Paths [''string_quotes.py'', ''clean.py'']))
      stale_cache_dir batch_scenario_fs) = 0"
proof -
  let ?b = batch_scenario_env and ?d = stale_cache_dir and ?fs = batch_scenario_fs
  let ?i1 = "batch_invocation False False ''**()(!!*)'' Stdin"
  let ?i2 = "batch_invocation False False ''build/'' (Paths [''failing.py'', ''clean.py''])"
  let ?i3 = "batch_invocation True True ''build/'' (Paths [''string_quotes.py'', ''clean.py''])"
  let ?i4 = "batch_invocation False False ''build/'' (Paths [''string_quotes.py'', ''clean.py''])"
  have r: "black_main ?b iv ?d ?fs =
             (fst (black_main ?b iv ?d ?fs), fst (snd (black_main ?b iv ?d ?fs)),
              snd (snd (black_main ?b iv ?d ?fs)))" for iv
    by (rule prod_eqI) simp_all
  have bad: "\<not> valid_regex ?b (inv_include ?i1) \<or> \<not> valid_regex ?b (inv_exclude ?i1)"
    by (simp add: batch_eval_defs)
  have a: "fst (black_main ?b ?i1 ?d ?fs) = 2"
    by (rule black_main_exit_status [OF r, THEN conjunct1, THEN mp, OF bad, THEN conjunct1])
  have v2: "valid_regex ?b (inv_include ?i2) \<and> valid_regex ?b (inv_exclude ?i2)"
    by (simp add: batch_eval_defs)
  have s2: "inv_src ?i2 = Paths [''failing.py'', ''clean.py'']"
    by (simp add: batch_invocation_def)
  have e2: "\<exists>po \<in> set (dispatch ?b (fst (filter_cached ?fs
              (read_cache ?d (inv_line_length ?i2) (inv_mode ?i2)) [''failing.py'', ''clean.py'']))).
              \<not> succeeded po"
    by (simp add: batch_eval_defs)
  have b: "fst (black_main ?b ?i2 ?d ?fs) = 123"
    by (rule black_main_exit_status [OF r, THEN conjunct2, THEN mp, OF v2, THEN conjunct1,
          THEN spec, THEN spec, THEN mp, OF conjI, OF s2 refl, THEN conjunct1, THEN mp, OF e2])
  have v3: "valid_regex ?b (inv_include ?i3) \<and> valid_regex ?b (inv_exclude ?i3)"
    by (simp add: batch_eval_defs)
  have s3: "inv_src ?i3 = Paths [''string_quotes.py'', ''clean.py'']"
    by (simp add: batch_invocation_def)
  have e3: "(\<forall>po \<in> set (dispatch ?b (fst (filter_cached ?fs
              (read_cache ?d (inv_line_length ?i3) (inv_mode ?i3))
              [''string_quotes.py'', ''clean.py'']))). succeeded po) \<and>
            inv_check ?i3 \<and>
            (\<exists>po \<in> set (dispatch ?b (fst (filter_cached ?fs
              (read_cache ?d (inv_line_length ?i3) (inv_mode ?i3))
              [''string_quotes.py'', ''clean.py'']))). reformatted po)"
    by (simp add: batch_eval_defs)
  have c: "fst (black_main ?b ?i3 ?d ?fs) = 1"
    by (rule black_main_exit_status [OF r, THEN conjunct2, THEN mp, OF v3, THEN conjunct1,
          THEN spec, THEN spec, THEN mp, OF conjI, OF s3 refl, THEN conjunct2, THEN conjunct1,
          THEN mp, OF e3])
  have v4: "valid_regex ?b (inv_include ?i4) \<and> valid_regex ?b (inv_exclude ?i4)"
    by (simp add: batch_eval_defs)
  have s4: "inv_src ?i4 = Paths [''string_quotes.py'', ''clean.py'']"
    by (simp add: batch_invocation_def)
  have e4: "(\<forall>po \<in> set (dispatch ?b (fst (filter_cached ?fs
              (read_cache ?d (inv_line_length ?i4) (inv_mode ?i4))
              [''string_quotes.py'', ''clean.py'']))). succeeded po) \<and>
            \<not> (inv_check ?i4 \<and>
            (\<exists>po \<in> set (dispatch ?b (fst (filter_cached ?fs
              (read_cache ?d (inv_line_length ?i4) (inv_mode ?i4))
              [''string_quotes.py'', ''clean.py'']))). reformatted po))"
    by (simp add: batch_eval_defs)
  have d: "fst (black_main ?b ?i4 ?d ?fs) = 0"
    by (rule black_main_exit_status [OF r, THEN conjunct2, THEN mp, OF v4, THEN conjunct1,
          THEN spec, THEN spec, THEN mp, OF conjI, OF s4 refl, THEN conjunct2, THEN conjunct2,
          THEN mp, OF e4])
  from a b c d show ?thesis by (intro conjI)
qed

end
